theory Spec2Isabelle
  imports Main "HOL-Library.Sublist"
begin

section \<open>Python values and errors\<close>

text \<open>
  A parsed JSON document, as \<open>json.load\<close> returns it: \<open>None\<close>, booleans, integers, strings,
  lists and dicts with string keys. A character of a string is a code point below 256.
  A dict is an association list in insertion order; in a
  value that \<open>json.load\<close> produces the keys are distinct. Numbers are integers;
  non-integer numbers are not modelled. In version detection such a number would be a
  scalar leaf like an integer: no dict, no list, with neither members nor \<open>values\<close>.
\<close>

datatype json =
    JNull
  | JBool bool
  | JInt int
  | JStr string
  | JList "json list"
  | JDict "(string \<times> json) list"

text \<open>
  The exceptions the code raises, by class. The argument is the fixed text of the message
  (the value formatted into it is left out), the missing key of a \<open>KeyError\<close>, or the
  attribute that an \<open>AttributeError\<close> did not find.
\<close>

datatype error =
    ValueError string
  | TypeError string
  | KeyError string
  | AttributeError string

text \<open>Sequencing of a computation that may raise: the first exception ends it.\<close>

definition and_then :: "error + 'a \<Rightarrow> ('a \<Rightarrow> error + 'b) \<Rightarrow> error + 'b" where
  "and_then m f = (case m of Inl e \<Rightarrow> Inl e | Inr x \<Rightarrow> f x)"

text \<open>\<open>sub in s\<close> on two strings: \<open>sub\<close> occurs in \<open>s\<close> as a contiguous part.\<close>

fun str_contains :: "string \<Rightarrow> string \<Rightarrow> bool" where
  "str_contains sub [] = (sub = [])"
| "str_contains sub (c # cs) = (prefix sub (c # cs) \<or> str_contains sub cs)"

text \<open>\<open>key in container\<close> for a string key, by the type of the container.\<close>

fun py_in :: "string \<Rightarrow> json \<Rightarrow> error + bool" where
  "py_in key (JDict d) = Inr (key \<in> set (map fst d))"
| "py_in key (JList xs) = Inr (JStr key \<in> set xs)"
| "py_in key (JStr s) = Inr (str_contains key s)"
| "py_in key _ = Inl (TypeError ''argument is not iterable'')"

text \<open>\<open>container[key]\<close> for a string key: only a dict can be indexed by a string.\<close>

fun py_getitem :: "json \<Rightarrow> string \<Rightarrow> error + json" where
  "py_getitem (JDict d) key =
     (case map_of d key of None \<Rightarrow> Inl (KeyError key) | Some v \<Rightarrow> Inr v)"
| "py_getitem _ key = Inl (TypeError ''not subscriptable by a string'')"

text \<open>\<open>container.values()\<close>: only a dict has the method.\<close>

fun py_values :: "json \<Rightarrow> error + json list" where
  "py_values (JDict d) = Inr (map snd d)"
| "py_values _ = Inl (AttributeError ''values'')"

section \<open>Version model (version.py)\<close>

type_synonym version = "int \<times> int"

definition VERSION_1_0 :: version where "VERSION_1_0 = (1, 0)"
definition VERSION_1_1 :: version where "VERSION_1_1 = (1, 1)"
definition VERSION_1_2 :: version where "VERSION_1_2 = (1, 2)"
definition VERSION_2_0 :: version where "VERSION_2_0 = (2, 0)"
definition MIN_LOCATION_VERSION :: version where "MIN_LOCATION_VERSION = VERSION_2_0"

subsection \<open>\<open>int(str)\<close> and \<open>str.split\<close>\<close>

text \<open>
  The characters that \<open>int\<close> drops around a literal: the six ASCII whitespace characters
  (space, tab, line feed, vertical tab, form feed, carriage return) and, of the characters
  from 128 on, those that are Unicode whitespace: next line (0x85) and no-break space
  (0xA0). The separators 0x1C to 0x1F are not among them.
\<close>

definition is_space :: "char \<Rightarrow> bool" where
  "is_space c = (c \<in> set [CHR '' '', CHR 0x09, CHR 0x0A, CHR 0x0B, CHR 0x0C, CHR 0x0D,
                            CHR 0x85, CHR 0xA0])"

definition is_digit :: "char \<Rightarrow> bool" where
  "is_digit c = (c \<in> set ''0123456789'')"

definition strip :: "string \<Rightarrow> string" where
  "strip s = rev (dropWhile is_space (rev (dropWhile is_space s)))"

text \<open>
  The digits of an integer literal: at least one digit, and an underscore only between two
  digits.
\<close>

fun digits_ok :: "string \<Rightarrow> bool" where
  "digits_ok [] = False"
| "digits_ok [c] = is_digit c"
| "digits_ok (c # d # cs) =
     (is_digit c \<and> (if d = CHR ''_'' then digits_ok cs else digits_ok (d # cs)))"

definition digits_value :: "string \<Rightarrow> int" where
  "digits_value s =
     foldl (\<lambda>acc c. 10 * acc + (int (of_char c) - 48)) 0 (filter (\<lambda>c. c \<noteq> CHR ''_'') s)"

text \<open>
  The value of the digits of a literal. \<open>int\<close> refuses a literal of more than 4300 digits
  (the default limit of CPython 3.11 and later; underscores do not count, leading zeros
  do). \<open>None\<close> stands for the \<open>ValueError\<close> that \<open>int\<close> raises.
\<close>

definition int_literal :: "string \<Rightarrow> int option" where
  "int_literal ds =
     (if digits_ok ds \<and> length (filter is_digit ds) \<le> 4300 then Some (digits_value ds)
      else None)"

text \<open>
  \<open>int(s)\<close> on a string, base ten: surrounding whitespace is dropped, one sign is allowed.
\<close>

definition py_int_of_str :: "string \<Rightarrow> int option" where
  "py_int_of_str s =
     (case strip s of
        [] \<Rightarrow> None
      | c # cs \<Rightarrow>
          if c = CHR ''-'' then map_option uminus (int_literal cs)
          else if c = CHR ''+'' then int_literal cs
          else int_literal (c # cs))"

text \<open>\<open>s.split(sep)\<close> for a one-character separator.\<close>

fun split_on :: "char \<Rightarrow> string \<Rightarrow> string list" where
  "split_on sep [] = [[]]"
| "split_on sep (c # cs) =
     (if c = sep then [] # split_on sep cs
      else (case split_on sep cs of
              [] \<Rightarrow> [[c]]
            | p # ps \<Rightarrow> (c # p) # ps))"

subsection \<open>Conversions and predicates\<close>

text \<open>
  \<open>string_to_version\<close>: the two first dot-separated parts, each through \<open>int\<close>. The
  \<open>IndexError\<close> of a missing second part and the \<open>ValueError\<close> of \<open>int\<close> are both caught
  and raised again as \<open>ValueError\<close>. The argument is whatever the caller passes: on anything
  but a string, \<open>.split\<close> does not exist, and that \<open>AttributeError\<close> is not caught.
\<close>

definition string_to_version :: "json \<Rightarrow> error + version" where
  "string_to_version version_str =
     (case version_str of
        JStr s \<Rightarrow>
          (case split_on CHR ''.'' s of
             p0 # p1 # _ \<Rightarrow>
               (case py_int_of_str p0 of
                  None \<Rightarrow> Inl (ValueError ''Invalid version string'')
                | Some major \<Rightarrow>
                    (case py_int_of_str p1 of
                       None \<Rightarrow> Inl (ValueError ''Invalid version string'')
                     | Some minor \<Rightarrow> Inr (major, minor)))
           | _ \<Rightarrow> Inl (ValueError ''Invalid version string''))
      | _ \<Rightarrow> Inl (AttributeError ''split''))"

text \<open>A version argument is a string or a tuple (\<open>Union[str, Tuple[int, int]]\<close>).\<close>

datatype version_arg = VersionStr string | VersionTuple version

definition get_version_tuple :: "version_arg \<Rightarrow> error + version" where
  "get_version_tuple v =
     (case v of
        VersionStr s \<Rightarrow> string_to_version (JStr s)
      | VersionTuple t \<Rightarrow> Inr t)"

text \<open>
  \<open>v >= w\<close> on two pairs, as Python compares tuples: the first position where they differ
  decides; equal tuples compare true.
\<close>

definition tuple_ge :: "version \<Rightarrow> version \<Rightarrow> bool" where
  "tuple_ge v w =
     (if fst v \<noteq> fst w then fst v > fst w
      else if snd v \<noteq> snd w then snd v > snd w
      else True)"

definition is_v1 :: "version_arg \<Rightarrow> error + bool" where
  "is_v1 version = and_then (get_version_tuple version) (\<lambda>v. Inr (fst v = 1))"

definition is_v2 :: "version_arg \<Rightarrow> error + bool" where
  "is_v2 version = and_then (get_version_tuple version) (\<lambda>v. Inr (fst v \<ge> 2))"

definition is_distributed :: "version_arg \<Rightarrow> error + bool" where
  "is_distributed version = is_v2 version"

definition supports_location_objects :: "version_arg \<Rightarrow> error + bool" where
  "supports_location_objects version =
     and_then (get_version_tuple version) (\<lambda>v. Inr (tuple_ge v MIN_LOCATION_VERSION))"

text \<open>
  The order of the specification: \<open>(major, minor)\<close> pairs compared lexicographically.
\<close>

definition spec_lex_ge :: "version \<Rightarrow> version \<Rightarrow> bool" where
  "spec_lex_ge v w = (fst v > fst w \<or> (fst v = fst w \<and> snd v \<ge> snd w))"

section \<open>Version detection (version.py)\<close>

text \<open>\<open>isinstance(v, dict) and key in v\<close>.\<close>

definition has_key :: "string \<Rightarrow> json \<Rightarrow> bool" where
  "has_key key v = (case v of JDict d \<Rightarrow> key \<in> set (map fst d) | _ \<Rightarrow> False)"

text \<open>
  \<open>if isinstance(v, dict): for x in v.values(): ...\<close> where the body returns \<open>True\<close> as
  soon as \<open>P x\<close> holds: the loop finds an \<open>x\<close> or falls through.
\<close>

definition any_value :: "(json \<Rightarrow> bool) \<Rightarrow> json \<Rightarrow> bool" where
  "any_value P v = (case v of JDict d \<Rightarrow> list_ex P (map snd d) | _ \<Rightarrow> False)"

text \<open>The same for \<open>if isinstance(v, list): for x in v: ...\<close>.\<close>

definition any_item :: "(json \<Rightarrow> bool) \<Rightarrow> json \<Rightarrow> bool" where
  "any_item P v = (case v of JList xs \<Rightarrow> list_ex P xs | _ \<Rightarrow> False)"

text \<open>The loop over \<open>payload["rpms"].values()\<close>: variant, arch, srpm, rpm.\<close>

definition rpms_loop :: "json list \<Rightarrow> error + bool" where
  "rpms_loop variants =
     Inr (list_ex (any_value (any_value (any_value (has_key ''location'')))) variants)"

text \<open>
  The loop over \<open>payload["images"].values()\<close>, and the identical one over
  \<open>payload["extra_files"].values()\<close>: variant, arch, list entry.
\<close>

definition images_loop :: "json list \<Rightarrow> error + bool" where
  "images_loop variants = Inr (list_ex (any_value (any_item (has_key ''location''))) variants)"

text \<open>
  The loop over \<open>payload["variants"].values()\<close>. \<open>paths.values()\<close> is called with no
  \<open>isinstance\<close> test before it, so a \<open>paths\<close> entry that is no dict raises when the loop
  reaches it.
\<close>

fun variants_loop :: "json list \<Rightarrow> error + bool" where
  "variants_loop [] = Inr False"
| "variants_loop (variant # rest) =
     (if has_key ''paths'' variant then
        and_then (py_getitem variant ''paths'') (\<lambda>paths.
        and_then (py_values paths) (\<lambda>path_types.
          if list_ex (any_value (has_key ''url'')) path_types then Inr True
          else variants_loop rest))
      else variants_loop rest)"

text \<open>
  One section of \<open>_has_location_in_payload\<close>:
  \<open>if key in payload: for variant in payload[key].values(): ...\<close>.
\<close>

definition section_check :: "string \<Rightarrow> (json list \<Rightarrow> error + bool) \<Rightarrow> json \<Rightarrow> error + bool" where
  "section_check key loop payload =
     and_then (py_in key payload) (\<lambda>present.
       if present then
         and_then (py_getitem payload key) (\<lambda>container.
         and_then (py_values container) loop)
       else Inr False)"

text \<open>A section that found a marker returns \<open>True\<close>; otherwise the next one runs.\<close>

definition or_else :: "error + bool \<Rightarrow> error + bool \<Rightarrow> error + bool" where
  "or_else m rest = and_then m (\<lambda>found. if found then Inr True else rest)"

definition has_location_in_payload :: "json \<Rightarrow> error + bool" where
  "has_location_in_payload payload =
     or_else (section_check ''rpms'' rpms_loop payload)
    (or_else (section_check ''images'' images_loop payload)
    (or_else (section_check ''extra_files'' images_loop payload)
             (section_check ''variants'' variants_loop payload)))"

definition has_location_objects :: "json \<Rightarrow> error + bool" where
  "has_location_objects data =
     and_then (py_in ''payload'' data) (\<lambda>present.
       if \<not> present then Inr False
       else and_then (py_getitem data ''payload'') has_location_in_payload)"

definition indeterminate :: error where
  "indeterminate = ValueError ''Cannot determine metadata version from data''"

text \<open>\<open>"rpms" in payload or "images" in payload or "compose" in payload\<close>.\<close>

definition legacy_keys :: "json \<Rightarrow> error + bool" where
  "legacy_keys payload =
     or_else (py_in ''rpms'' payload)
    (or_else (py_in ''images'' payload) (py_in ''compose'' payload))"

text \<open>\<open>"header" in data and "version" in data["header"]\<close>.\<close>

definition has_version_tag :: "json \<Rightarrow> error + bool" where
  "has_version_tag data =
     and_then (py_in ''header'' data) (\<lambda>present.
       if present then and_then (py_getitem data ''header'') (py_in ''version'')
       else Inr False)"

definition detect_version_from_data :: "json \<Rightarrow> error + version" where
  "detect_version_from_data data =
     and_then (has_version_tag data) (\<lambda>tagged.
       if tagged then
         and_then (py_getitem data ''header'') (\<lambda>header.
         and_then (py_getitem header ''version'') string_to_version)
       else
         and_then (py_in ''payload'' data) (\<lambda>present.
           if present then
             and_then (py_getitem data ''payload'') (\<lambda>payload.
             and_then (has_location_in_payload payload) (\<lambda>located.
               if located then Inr VERSION_2_0
               else
                 and_then (legacy_keys payload) (\<lambda>legacy.
                   if legacy then Inr VERSION_1_0 else Inl indeterminate)))
           else Inl indeterminate))"

subsection \<open>The detection rules in the words of the specification\<close>














section \<open>Checksums and OCI references (location.py)\<close>

definition CHECKSUM_ALGO :: string where
  "CHECKSUM_ALGO = ''sha256''"

text \<open>The character class \<open>[a-f0-9]\<close>.\<close>

definition is_hex :: "char \<Rightarrow> bool" where
  "is_hex c = (c \<in> set ''abcdef0123456789'')"

text \<open>
  The anchor \<open>$\<close> of Python's \<open>re\<close> (no \<open>MULTILINE\<close> flag): it matches at the end of the
  string, and also just before a newline that is the last character.
\<close>

definition at_end :: "string \<Rightarrow> bool" where
  "at_end s = (s = [] \<or> s = [CHR 0x0A])"

text \<open>
  \<open>CHECKSUM_RE.match(s)\<close> for
  \<open>^(?P<algorithm>sha256|sha512|sha1|md5):(?P<digest>[a-f0-9]+)$\<close>; the result holds the
  groups \<open>algorithm\<close> and \<open>digest\<close>. The alternatives are tried in the order written. No
  alternative followed by the colon is a prefix of another, so at most one can be followed
  by the rest of the pattern; and \<open>[a-f0-9]+\<close> must take every hexadecimal character it
  finds, because \<open>$\<close> does not match before one. Backtracking therefore never finds a match
  other than the one computed here.
\<close>

definition CHECKSUM_RE_match :: "string \<Rightarrow> (string \<times> string) option" where
  "CHECKSUM_RE_match s =
     (case List.find (\<lambda>a. prefix (a @ '':'') s) [''sha256'', ''sha512'', ''sha1'', ''md5''] of
        None \<Rightarrow> None
      | Some algorithm \<Rightarrow>
          (let rest = drop (length algorithm + 1) s;
               digest = takeWhile is_hex rest
           in if digest \<noteq> [] \<and> at_end (dropWhile is_hex rest)
              then Some (algorithm, digest) else None))"

definition parse_checksum :: "string \<Rightarrow> error + (string \<times> string)" where
  "parse_checksum checksum =
     (case CHECKSUM_RE_match checksum of
        None \<Rightarrow> Inl (ValueError ''Invalid checksum format'')
      | Some (algorithm, digest) \<Rightarrow> Inr (algorithm, digest))"

text \<open>The groups of a match of \<open>OCI_REFERENCE_RE\<close>; the tag group is optional.\<close>

record oci_reference =
  group_registry :: string
  group_repository :: string
  group_tag :: "string option"
  group_digest :: string

text \<open>
  \<open>OCI_REFERENCE_RE.match(s)\<close> for
  \<open>^oci://(?P<registry>[^/]+)/(?P<repository>[^:@]+)(:(?P<tag>[^@]+))?(@(?P<digest>sha256:[a-f0-9]{64}))$\<close>.
  Each repeated class is followed by a character outside the class (\<open>/\<close> after the registry,
  \<open>:\<close> or \<open>@\<close> after the repository, \<open>@\<close> after the tag), so it must take the longest run
  it can; and when a colon follows the repository the optional group cannot be skipped,
  since \<open>@\<close> must come next.
\<close>

definition OCI_REFERENCE_RE_match :: "string \<Rightarrow> oci_reference option" where
  "OCI_REFERENCE_RE_match s =
     (if \<not> prefix ''oci://'' s then None
      else
        let s1 = drop 6 s;
            reg = takeWhile (\<lambda>c. c \<noteq> CHR ''/'') s1;
            s2 = dropWhile (\<lambda>c. c \<noteq> CHR ''/'') s1
        in if reg = [] \<or> s2 = [] then None
           else
             let s3 = tl s2;
                 repo = takeWhile (\<lambda>c. c \<notin> set '':@'') s3;
                 s4 = dropWhile (\<lambda>c. c \<notin> set '':@'') s3
             in if repo = [] then None
                else
                  let has_colon = prefix '':'' s4;
                      tg = takeWhile (\<lambda>c. c \<noteq> CHR ''@'') (tl s4);
                      s5 = (if has_colon then dropWhile (\<lambda>c. c \<noteq> CHR ''@'') (tl s4) else s4)
                  in if has_colon \<and> tg = [] then None
                     else if \<not> prefix ''@sha256:'' s5 then None
                     else
                       let hex = take 64 (drop 8 s5);
                           s6 = drop 64 (drop 8 s5)
                       in if length hex = 64 \<and> list_all is_hex hex \<and> at_end s6
                          then Some \<lparr>group_registry = reg, group_repository = repo,
                                      group_tag = (if has_colon then Some tg else None),
                                      group_digest = ''sha256:'' @ hex\<rparr>
                          else None)"

section \<open>Validation helpers of the base class\<close>

text \<open>
  Modelled from the spec: \<open>productmd.common.MetadataBase._assert_type\<close> is not among the
  sources. An attribute is of its documented type or \<open>None\<close>; the check fails on \<open>None\<close>
  and yields the value otherwise.
\<close>

definition assert_type :: "'a option \<Rightarrow> error + 'a" where
  "assert_type field = (case field of None \<Rightarrow> Inl (TypeError ''invalid type'') | Some v \<Rightarrow> Inr v)"

text \<open>
  Modelled from the spec: \<open>productmd.common.MetadataBase._assert_not_blank\<close> is not among the
  sources. The specification calls such fields non-empty: the check fails on \<open>None\<close> and on
  the empty string.
\<close>

definition assert_not_blank :: "string option \<Rightarrow> error + unit" where
  "assert_not_blank field =
     (if field = None \<or> field = Some [] then Inl (ValueError ''must not be blank'')
      else Inr ())"

section \<open>FileEntry (location.py)\<close>

text \<open>
  The attributes have the types the class documents, or are \<open>None\<close>, the default of the
  constructor. A Python \<open>bool\<close> is an \<open>int\<close> and counts as its integer value.
\<close>

record FileEntry =
  entry_file :: "string option"
  entry_size :: "int option"
  entry_checksum :: "string option"
  entry_layer_digest :: "string option"

definition FileEntry_init ::
  "string option \<Rightarrow> int option \<Rightarrow> string option \<Rightarrow> string option \<Rightarrow> FileEntry" where
  "FileEntry_init f s c l =
     \<lparr>entry_file = f, entry_size = s, entry_checksum = c, entry_layer_digest = l\<rparr>"

definition FileEntry_eq :: "FileEntry \<Rightarrow> FileEntry \<Rightarrow> bool" where
  "FileEntry_eq self other =
     (entry_file self = entry_file other
      \<and> entry_size self = entry_size other
      \<and> entry_checksum self = entry_checksum other
      \<and> entry_layer_digest self = entry_layer_digest other)"

definition entry_validate_file :: "FileEntry \<Rightarrow> error + unit" where
  "entry_validate_file self =
     and_then (assert_type (entry_file self)) (\<lambda>f.
     and_then (assert_not_blank (entry_file self)) (\<lambda>_.
       if prefix ''/'' f then Inl (ValueError ''FileEntry: file must be a relative path'')
       else Inr ()))"

definition entry_validate_size :: "FileEntry \<Rightarrow> error + unit" where
  "entry_validate_size self =
     and_then (assert_type (entry_size self)) (\<lambda>n.
       if n < 0 then Inl (ValueError ''FileEntry: size must be non-negative'')
       else Inr ())"

definition entry_validate_checksum :: "FileEntry \<Rightarrow> error + unit" where
  "entry_validate_checksum self =
     and_then (assert_type (entry_checksum self)) (\<lambda>c.
     and_then (assert_not_blank (entry_checksum self)) (\<lambda>_.
       if CHECKSUM_RE_match c = None
       then Inl (ValueError ''FileEntry: checksum must be in algorithm:hexdigest format'')
       else Inr ()))"

definition entry_validate_layer_digest :: "FileEntry \<Rightarrow> error + unit" where
  "entry_validate_layer_digest self =
     and_then (assert_type (entry_layer_digest self)) (\<lambda>l.
     and_then (assert_not_blank (entry_layer_digest self)) (\<lambda>_.
       if \<not> prefix ''sha256:'' l
       then Inl (ValueError ''FileEntry: layer_digest must start with sha256:'')
       else Inr ()))"

text \<open>
  Modelled from the spec: \<open>productmd.common.MetadataBase.validate\<close> is not among the sources.
  The specification has no partial success: either every invariant of the entity holds, or
  the first violation met is reported. The model runs the \<open>_validate_*\<close> methods of the
  class one after the other, in the order of their names.
\<close>

definition FileEntry_validate :: "FileEntry \<Rightarrow> error + unit" where
  "FileEntry_validate self =
     and_then (entry_validate_checksum self) (\<lambda>_.
     and_then (entry_validate_file self) (\<lambda>_.
     and_then (entry_validate_layer_digest self) (\<lambda>_.
       entry_validate_size self)))"

text \<open>An optional string or integer as a JSON value.\<close>

definition json_of_str :: "string option \<Rightarrow> json" where
  "json_of_str field = (case field of None \<Rightarrow> JNull | Some s \<Rightarrow> JStr s)"

definition json_of_int :: "int option \<Rightarrow> json" where
  "json_of_int field = (case field of None \<Rightarrow> JNull | Some n \<Rightarrow> JInt n)"

definition FileEntry_serialize :: "FileEntry \<Rightarrow> error + json" where
  "FileEntry_serialize self =
     and_then (FileEntry_validate self) (\<lambda>_.
       Inr (JDict [(''file'', json_of_str (entry_file self)),
                   (''size'', json_of_int (entry_size self)),
                   (''checksum'', json_of_str (entry_checksum self)),
                   (''layer_digest'', json_of_str (entry_layer_digest self))]))"

text \<open>\<open>int(v)\<close> on a JSON value.\<close>

definition py_int :: "json \<Rightarrow> error + int" where
  "py_int v =
     (case v of
        JInt n \<Rightarrow> Inr n
      | JBool b \<Rightarrow> Inr (if b then 1 else 0)
      | JStr s \<Rightarrow>
          (case py_int_of_str s of
             None \<Rightarrow> Inl (ValueError ''invalid literal for int()'')
           | Some n \<Rightarrow> Inr n)
      | _ \<Rightarrow> Inl (TypeError ''int() argument must be a string or a number''))"

text \<open>
  A value read from a dictionary into a string attribute: the string, and \<open>None\<close> for
  anything else. The source stores the value itself; \<open>validate\<close> then reaches the method of
  the attribute, whose first step \<open>_assert_type\<close> fails on a value that is no string as it
  fails on \<open>None\<close>. Of the other methods only \<open>Location._validate_contents\<close> reads a string
  attribute, the url: \<open>Location_from_dict\<close> accounts for it.
\<close>

definition str_field :: "json \<Rightarrow> string option" where
  "str_field v = (case v of JStr s \<Rightarrow> Some s | _ \<Rightarrow> None)"

text \<open>A value that is neither a string nor \<open>None\<close>.\<close>

definition ill_typed :: "json \<Rightarrow> bool" where
  "ill_typed v = (case v of JNull \<Rightarrow> False | JStr _ \<Rightarrow> False | _ \<Rightarrow> True)"

text \<open>The truth value of a value, as \<open>not v\<close> reads it.\<close>

definition truthy :: "json \<Rightarrow> bool" where
  "truthy v =
     (case v of
        JNull \<Rightarrow> False
      | JBool b \<Rightarrow> b
      | JInt n \<Rightarrow> n \<noteq> 0
      | JStr s \<Rightarrow> s \<noteq> []
      | JList xs \<Rightarrow> xs \<noteq> []
      | JDict d \<Rightarrow> d \<noteq> [])"

text \<open>\<open>FileEntry.from_dict\<close>: a new entry, then \<open>deserialize\<close>, which ends with \<open>validate\<close>.\<close>

definition FileEntry_from_dict :: "json \<Rightarrow> error + FileEntry" where
  "FileEntry_from_dict data =
     and_then (py_getitem data ''file'') (\<lambda>f.
     and_then (py_getitem data ''size'') (\<lambda>s.
     and_then (py_int s) (\<lambda>n.
     and_then (py_getitem data ''checksum'') (\<lambda>c.
     and_then (py_getitem data ''layer_digest'') (\<lambda>l.
       let entry = \<lparr>entry_file = str_field f, entry_size = Some n,
                     entry_checksum = str_field c, entry_layer_digest = str_field l\<rparr>
       in and_then (FileEntry_validate entry) (\<lambda>_. Inr entry))))))"

section \<open>Location (location.py)\<close>

text \<open>
  The attributes have the types the class documents, or are \<open>None\<close>. The type of
  \<open>contents\<close> is a parameter: a list of entries where only the value of the list matters,
  a reference to a list object where its identity does.
\<close>

record 'c Location =
  loc_url :: "string option"
  loc_size :: "int option"
  loc_checksum :: "string option"
  loc_local_path :: "string option"
  loc_contents :: 'c

text \<open>\<open>__init__\<close>: every argument is stored as it is; \<open>contents or []\<close>.\<close>

definition Location_init ::
  "string option \<Rightarrow> int option \<Rightarrow> string option \<Rightarrow> string option \<Rightarrow> FileEntry list option
   \<Rightarrow> FileEntry list Location" where
  "Location_init url sz checksum local_path contents =
     \<lparr>loc_url = url, loc_size = sz, loc_checksum = checksum, loc_local_path = local_path,
      loc_contents = (case contents of
                        None \<Rightarrow> []
                      | Some entries \<Rightarrow> if entries \<noteq> [] then entries else [])\<rparr>"

text \<open>
  \<open>__eq__\<close>. The other object is a Location by its type, so the \<open>isinstance\<close> test passes.
  Two lists are equal when they have the same length and equal entries. The same holds for
  \<open>FileEntry.__eq__\<close> above.
\<close>

definition Location_eq :: "FileEntry list Location \<Rightarrow> FileEntry list Location \<Rightarrow> bool" where
  "Location_eq self other =
     (loc_url self = loc_url other
      \<and> loc_size self = loc_size other
      \<and> loc_checksum self = loc_checksum other
      \<and> loc_local_path self = loc_local_path other
      \<and> list_all2 FileEntry_eq (loc_contents self) (loc_contents other))"

text \<open>
  \<open>__hash__\<close>: the built-in \<open>hash\<close> of the tuple of the first four attributes. The built-in
  is a parameter: any function of the tuple.
\<close>

definition Location_hash ::
  "(string option \<times> int option \<times> string option \<times> string option \<Rightarrow> int)
   \<Rightarrow> 'c Location \<Rightarrow> int" where
  "Location_hash py_hash self =
     py_hash (loc_url self, loc_size self, loc_checksum self, loc_local_path self)"

subsection \<open>Classification of the url\<close>

text \<open>\<open>not self.url\<close>: the url is \<open>None\<close> or the empty string.\<close>

definition no_url :: "'c Location \<Rightarrow> bool" where
  "no_url self = (loc_url self = None \<or> loc_url self = Some [])"

text \<open>\<open>self.url.startswith(p)\<close> once the url is known to be a non-empty string.\<close>

definition url_startswith :: "'c Location \<Rightarrow> string \<Rightarrow> bool" where
  "url_startswith self p = (case loc_url self of None \<Rightarrow> False | Some u \<Rightarrow> prefix p u)"

definition is_remote :: "'c Location \<Rightarrow> bool" where
  "is_remote self =
     (if no_url self then False
      else url_startswith self ''https://'' \<or> url_startswith self ''http://''
           \<or> url_startswith self ''oci://'')"

definition is_https :: "'c Location \<Rightarrow> bool" where
  "is_https self = (if no_url self then False else url_startswith self ''https://'')"

definition is_http :: "'c Location \<Rightarrow> bool" where
  "is_http self = (if no_url self then False else url_startswith self ''http://'')"

definition is_oci :: "'c Location \<Rightarrow> bool" where
  "is_oci self = (if no_url self then False else url_startswith self ''oci://'')"

definition is_local :: "'c Location \<Rightarrow> bool" where
  "is_local self = (\<not> is_remote self)"

text \<open>
  The OCI properties: \<open>None\<close> unless the url is an OCI url that matches
  \<open>OCI_REFERENCE_RE\<close>; then the group, which for the tag may itself be \<open>None\<close>.
\<close>

definition oci_match :: "'c Location \<Rightarrow> oci_reference option" where
  "oci_match self =
     (if \<not> is_oci self then None
      else case loc_url self of None \<Rightarrow> None | Some u \<Rightarrow> OCI_REFERENCE_RE_match u)"

definition oci_registry :: "'c Location \<Rightarrow> string option" where
  "oci_registry self = map_option group_registry (oci_match self)"

definition oci_repository :: "'c Location \<Rightarrow> string option" where
  "oci_repository self = map_option group_repository (oci_match self)"

definition oci_tag :: "'c Location \<Rightarrow> string option" where
  "oci_tag self = (case oci_match self of None \<Rightarrow> None | Some m \<Rightarrow> group_tag m)"

definition oci_digest :: "'c Location \<Rightarrow> string option" where
  "oci_digest self = map_option group_digest (oci_match self)"

subsection \<open>Validation\<close>

definition loc_validate_url :: "'c Location \<Rightarrow> error + unit" where
  "loc_validate_url self =
     and_then (assert_type (loc_url self)) (\<lambda>u.
     and_then (assert_not_blank (loc_url self)) (\<lambda>_.
       if prefix ''/'' u then Inl (ValueError ''Location: url must not be an absolute path'')
       else if is_oci self \<and> \<not> str_contains ''@sha256:'' u
       then Inl (ValueError ''Location: OCI URLs must include @sha256:... digest for immutability'')
       else Inr ()))"

definition loc_validate_size :: "'c Location \<Rightarrow> error + unit" where
  "loc_validate_size self =
     and_then (assert_type (loc_size self)) (\<lambda>n.
       if n < 0 then Inl (ValueError ''Location: size must be non-negative'')
       else Inr ())"

definition loc_validate_checksum :: "'c Location \<Rightarrow> error + unit" where
  "loc_validate_checksum self =
     and_then (assert_type (loc_checksum self)) (\<lambda>c.
     and_then (assert_not_blank (loc_checksum self)) (\<lambda>_.
       if CHECKSUM_RE_match c = None
       then Inl (ValueError ''Location: checksum must be in algorithm:hexdigest format'')
       else Inr ()))"

definition loc_validate_local_path :: "'c Location \<Rightarrow> error + unit" where
  "loc_validate_local_path self =
     and_then (assert_type (loc_local_path self)) (\<lambda>p.
     and_then (assert_not_blank (loc_local_path self)) (\<lambda>_.
       if prefix ''/'' p then Inl (ValueError ''Location: local_path must be a relative path'')
       else Inr ()))"

text \<open>\<open>for entry in self.contents: entry.validate()\<close>: the first failure ends the loop.\<close>

fun validate_each :: "FileEntry list \<Rightarrow> error + unit" where
  "validate_each [] = Inr ()"
| "validate_each (entry # rest) =
     and_then (FileEntry_validate entry) (\<lambda>_. validate_each rest)"

text \<open>
  \<open>_validate_contents\<close>. The attribute is a list of entries by its type, so the two type
  tests of the source (on the list and on each entry) pass and are left out.
\<close>

definition loc_validate_contents :: "FileEntry list Location \<Rightarrow> error + unit" where
  "loc_validate_contents self =
     (if loc_contents self \<noteq> [] \<and> \<not> is_oci self
      then Inl (ValueError ''Location: contents can only be used with OCI URLs'')
      else validate_each (loc_contents self))"

text \<open>
  Modelled from the spec: \<open>productmd.common.MetadataBase.validate\<close> is not among the sources.
  As for an entry, the \<open>_validate_*\<close> methods of the class run one after the other, in the
  order of their names, and the first violation is reported.
\<close>

definition Location_validate :: "FileEntry list Location \<Rightarrow> error + unit" where
  "Location_validate self =
     and_then (loc_validate_checksum self) (\<lambda>_.
     and_then (loc_validate_contents self) (\<lambda>_.
     and_then (loc_validate_local_path self) (\<lambda>_.
     and_then (loc_validate_size self) (\<lambda>_.
       loc_validate_url self))))"

subsection \<open>Serialization\<close>

text \<open>\<open>[entry.serialize() for entry in self.contents]\<close>.\<close>

fun serialize_each :: "FileEntry list \<Rightarrow> error + json list" where
  "serialize_each [] = Inr []"
| "serialize_each (entry # rest) =
     and_then (FileEntry_serialize entry) (\<lambda>d.
     and_then (serialize_each rest) (\<lambda>ds. Inr (d # ds)))"

definition Location_serialize :: "FileEntry list Location \<Rightarrow> error + json" where
  "Location_serialize self =
     and_then (Location_validate self) (\<lambda>_.
       let result = [(''url'', json_of_str (loc_url self)),
                     (''size'', json_of_int (loc_size self)),
                     (''checksum'', json_of_str (loc_checksum self)),
                     (''local_path'', json_of_str (loc_local_path self))]
       in if loc_contents self \<noteq> []
          then and_then (serialize_each (loc_contents self)) (\<lambda>entries.
                 Inr (JDict (result @ [(''contents'', JList entries)])))
          else Inr (JDict result))"

text \<open>
  \<open>for x in v\<close>: the entries of a list, the keys of a dict, the characters of a string;
  nothing else can be iterated.
\<close>

definition py_iter :: "json \<Rightarrow> error + json list" where
  "py_iter v =
     (case v of
        JList xs \<Rightarrow> Inr xs
      | JDict d \<Rightarrow> Inr (map (\<lambda>kv. JStr (fst kv)) d)
      | JStr s \<Rightarrow> Inr (map (\<lambda>c. JStr [c]) s)
      | _ \<Rightarrow> Inl (TypeError ''object is not iterable''))"

text \<open>\<open>for entry_data in ...: self.contents.append(FileEntry.from_dict(entry_data))\<close>.\<close>

fun from_dict_each :: "json list \<Rightarrow> error + FileEntry list" where
  "from_dict_each [] = Inr []"
| "from_dict_each (entry_data # rest) =
     and_then (FileEntry_from_dict entry_data) (\<lambda>entry.
     and_then (from_dict_each rest) (\<lambda>entries. Inr (entry # entries)))"

text \<open>
  \<open>Location.from_dict\<close>: a new location, then \<open>deserialize\<close>, which ends with \<open>validate\<close>.
  When the url read is a value other than a string that counts as true and there are
  contents, \<open>_validate_contents\<close>, the second method of \<open>validate\<close>, evaluates \<open>is_oci\<close>,
  which calls \<open>startswith\<close> on the url and raises \<open>AttributeError\<close>; the first method,
  \<open>_validate_checksum\<close>, has run before it.
\<close>

definition Location_from_dict :: "json \<Rightarrow> error + FileEntry list Location" where
  "Location_from_dict data =
     and_then (py_getitem data ''url'') (\<lambda>u.
     and_then (py_getitem data ''size'') (\<lambda>s.
     and_then (py_int s) (\<lambda>n.
     and_then (py_getitem data ''checksum'') (\<lambda>c.
     and_then (py_getitem data ''local_path'') (\<lambda>p.
     and_then (and_then (py_in ''contents'' data) (\<lambda>present.
                 if present then
                   and_then (py_getitem data ''contents'') (\<lambda>cs.
                   and_then (py_iter cs) from_dict_each)
                 else Inr [])) (\<lambda>entries.
       let loc = \<lparr>loc_url = str_field u, loc_size = Some n, loc_checksum = str_field c,
                   loc_local_path = str_field p, loc_contents = entries\<rparr>
       in if entries \<noteq> [] \<and> ill_typed u \<and> truthy u
          then and_then (loc_validate_checksum loc) (\<lambda>_. Inl (AttributeError ''startswith''))
          else and_then (Location_validate loc) (\<lambda>_. Inr loc)))))))"

subsection \<open>Locations as objects: \<open>with_remote_url\<close>\<close>

text \<open>
  The list objects of the program: what each reference holds, and the next reference that
  is free. The references below \<open>fresh\<close> are the lists that exist.
\<close>

type_synonym ref = nat

record store =
  cells :: "ref \<Rightarrow> FileEntry list"
  fresh :: ref

text \<open>A new list object: \<open>[]\<close>, or the result of \<open>list.copy()\<close>.\<close>

definition alloc :: "store \<Rightarrow> FileEntry list \<Rightarrow> ref \<times> store" where
  "alloc st entries =
     (fresh st, st\<lparr>cells := (cells st)(fresh st := entries), fresh := Suc (fresh st)\<rparr>)"

text \<open>
  \<open>__init__\<close> on objects. The \<open>contents\<close> argument is \<open>None\<close> or a reference to a list;
  \<open>contents or []\<close> keeps the reference of a non-empty list and makes a new empty list
  otherwise.
\<close>

definition Location_new ::
  "store \<Rightarrow> string option \<Rightarrow> int option \<Rightarrow> string option \<Rightarrow> string option \<Rightarrow> ref option
   \<Rightarrow> ref Location \<times> store" where
  "Location_new st url sz checksum local_path contents =
     (let (r, st') = (case contents of
                        None \<Rightarrow> alloc st []
                      | Some c \<Rightarrow> if cells st c \<noteq> [] then (c, st) else alloc st [])
      in (\<lparr>loc_url = url, loc_size = sz, loc_checksum = checksum,
           loc_local_path = local_path, loc_contents = r\<rparr>, st'))"

text \<open>\<open>s.rstrip(c)\<close> for one character: every trailing \<open>c\<close> is removed.\<close>

definition rstrip :: "char \<Rightarrow> string \<Rightarrow> string" where
  "rstrip c s = rev (dropWhile (\<lambda>x. x = c) (rev s))"

text \<open>An optional string formatted into an f-string: \<open>None\<close> prints as \<open>None\<close>.\<close>

definition format_str :: "string option \<Rightarrow> string" where
  "format_str field = (case field of None \<Rightarrow> ''None'' | Some s \<Rightarrow> s)"

definition with_remote_url :: "store \<Rightarrow> ref Location \<Rightarrow> string \<Rightarrow> ref Location \<times> store" where
  "with_remote_url st self base_url =
     (let base_url' = rstrip CHR ''/'' base_url;
          new_url = base_url' @ ''/'' @ format_str (loc_local_path self);
          (contents, st') =
             (if cells st (loc_contents self) \<noteq> []
              then (let (r, st1) = alloc st (cells st (loc_contents self)) in (Some r, st1))
              else (None, st))
      in Location_new st' (Some new_url) (loc_size self) (loc_checksum self)
           (loc_local_path self) contents)"

text \<open>The value of a location object: its attributes, with the list its reference holds.\<close>

definition Location_value :: "store \<Rightarrow> ref Location \<Rightarrow> FileEntry list Location" where
  "Location_value st self =
     \<lparr>loc_url = loc_url self, loc_size = loc_size self, loc_checksum = loc_checksum self,
      loc_local_path = loc_local_path self, loc_contents = cells st (loc_contents self)\<rparr>"

subsection \<open>The invariant violations in the words of the specification\<close>

text \<open>
  The digest component of an OCI reference: the reference ends with \<open>@sha256:\<close> followed by
  exactly 64 lowercase hexadecimal characters.
\<close>

definition spec_has_digest :: "string \<Rightarrow> bool" where
  "spec_has_digest u =
     (72 \<le> length u
      \<and> take 8 (drop (length u - 72) u) = ''@sha256:''
      \<and> list_all is_hex (drop (length u - 64) u))"

text \<open>
  The url is an absolute path, the local path is an absolute path, an OCI url lacks its
  digest component, the size is negative, or there are contents and the url is no OCI url.
\<close>

definition spec_invariant_violation :: "FileEntry list Location \<Rightarrow> bool" where
  "spec_invariant_violation L =
     ((case loc_url L of None \<Rightarrow> False | Some u \<Rightarrow> prefix ''/'' u)
      \<or> (case loc_local_path L of None \<Rightarrow> False | Some p \<Rightarrow> prefix ''/'' p)
      \<or> (case loc_url L of None \<Rightarrow> False
          | Some u \<Rightarrow> prefix ''oci://'' u \<and> \<not> spec_has_digest u)
      \<or> (case loc_size L of None \<Rightarrow> False | Some n \<Rightarrow> n < 0)
      \<or> (loc_contents L \<noteq> [] \<and> \<not> is_oci L))"

section \<open>Properties of version detection\<close>

lemma py_in_dict: "py_in key (JDict d) = Inr (map_of d key \<noteq> None)"
  by (simp add: map_of_eq_None_iff)















text \<open>
  Claim C1. For every parsed document whose header holds an explicit version tag
  (\<open>data["header"]["version"]\<close> is present), \<open>detect_version_from_data\<close> returns the parse
  of that tag, whatever the payload is: the payload does not occur in the result.
\<close>

theorem detect_tagged:
  assumes "py_getitem data ''header'' = Inr (JDict h)"
    and "map_of h ''version'' = Some tag"
  shows "detect_version_from_data data = string_to_version tag"
proof -
  from assms(1) obtain d where d: "data = JDict d" and hd: "map_of d ''header'' = Some (JDict h)"
    by (cases data) (simp_all split: option.splits)
  from hd have "py_in ''header'' (JDict d) = Inr True"
    by (simp add: py_in_dict del: py_in.simps)
  moreover from assms(2) have "py_in ''version'' (JDict h) = Inr True"
    by (simp add: py_in_dict del: py_in.simps)
  ultimately show ?thesis using d hd assms(2)
    by (simp add: detect_version_from_data_def has_version_tag_def and_then_def del: py_in.simps)
qed

theorem detect_tagged_witness:
  "detect_version_from_data
     (JDict [(''header'', JDict [(''version'', JStr ''1.2'')]),
             (''payload'', JDict [(''images'', JDict [(''Server'', JDict [(''x86_64'',
                JList [JDict [(''location'', JDict [])]])])])])])
   = Inr (1, 2)"
proof -
  have "string_to_version (JStr ''1.2'') = Inr (1, 2)"
    by code_simp
  then show ?thesis
    using detect_tagged [of
        "JDict [(''header'', JDict [(''version'', JStr ''1.2'')]),
             (''payload'', JDict [(''images'', JDict [(''Server'', JDict [(''x86_64'',
                JList [JDict [(''location'', JDict [])]])])])])]"
        "[(''version'', JStr ''1.2'')]" "JStr ''1.2''"]
    by simp
qed

section \<open>Properties of the version predicates\<close>

text \<open>
  Claim C6. For every version tuple \<open>(major, minor)\<close> with non-negative components,
  \<open>is_distributed\<close> and \<open>supports_location_objects\<close> return the same boolean, and both
  are true exactly when the tuple is lexicographically at least \<open>(2, 0)\<close>.
\<close>

theorem distributed_iff_supports_location:
  assumes "0 \<le> major" and "0 \<le> minor"
  shows "is_distributed (VersionTuple (major, minor))
           = supports_location_objects (VersionTuple (major, minor))
       \<and> is_distributed (VersionTuple (major, minor))
           = Inr (spec_lex_ge (major, minor) (2, 0))"
  using assms
  by (auto simp: is_distributed_def is_v2_def supports_location_objects_def
      get_version_tuple_def and_then_def tuple_ge_def spec_lex_ge_def
      MIN_LOCATION_VERSION_def VERSION_2_0_def)

theorem distributed_iff_supports_location_witness:
  "is_distributed (VersionTuple (2, 0)) = supports_location_objects (VersionTuple (2, 0))
   \<and> is_distributed (VersionTuple (2, 0)) = Inr True
   \<and> is_distributed (VersionTuple (1, 2)) = supports_location_objects (VersionTuple (1, 2))
   \<and> is_distributed (VersionTuple (1, 2)) = Inr False"
proof -
  have a: "is_distributed (VersionTuple (2, 0)) = supports_location_objects (VersionTuple (2, 0))
      \<and> is_distributed (VersionTuple (2, 0)) = Inr (spec_lex_ge (2, 0) (2, 0))"
    by (rule distributed_iff_supports_location) simp_all
  have b: "is_distributed (VersionTuple (1, 2)) = supports_location_objects (VersionTuple (1, 2))
      \<and> is_distributed (VersionTuple (1, 2)) = Inr (spec_lex_ge (1, 2) (2, 0))"
    by (rule distributed_iff_supports_location) simp_all
  have c: "spec_lex_ge (2, 0) (2, 0)" "\<not> spec_lex_ge (1, 2) (2, 0)"
    by (simp_all add: spec_lex_ge_def)
  from a b c show ?thesis by metis
qed

section \<open>Properties of checksums\<close>

lemma find_algorithm:
  assumes "a \<in> set [''sha256'', ''sha512'', ''sha1'', ''md5'']"
  shows "List.find (\<lambda>x. prefix (x @ '':'') (a @ '':'' @ r))
           [''sha256'', ''sha512'', ''sha1'', ''md5''] = Some a"
  using assms by auto

lemma find_in_set: "List.find P xs = Some a \<Longrightarrow> a \<in> set xs \<and> P a"
  by (induction xs) (auto split: if_splits)

lemma find_algorithmD:
  assumes "List.find (\<lambda>x. prefix (x @ '':'') s) [''sha256'', ''sha512'', ''sha1'', ''md5''] = Some a"
  shows "a \<in> set [''sha256'', ''sha512'', ''sha1'', ''md5''] \<and> (\<exists>r. s = a @ '':'' @ r)"
proof -
  from find_in_set [OF assms]
  have "a \<in> set [''sha256'', ''sha512'', ''sha1'', ''md5'']" and "prefix (a @ '':'') s"
    by blast+
  then show ?thesis unfolding prefix_def by (metis append.assoc)
qed

lemma not_hex_newline: "\<not> is_hex (CHR 0x0A)"
  by (simp add: is_hex_def)

lemma span_hex:
  assumes "list_all is_hex d" and "at_end t"
  shows "takeWhile is_hex (d @ t) = d" and "dropWhile is_hex (d @ t) = t"
  using assms by (auto simp: at_end_def list_all_iff not_hex_newline takeWhile_append dropWhile_append)

lemma CHECKSUM_RE_match_accepts:
  assumes "a \<in> set [''sha256'', ''sha512'', ''sha1'', ''md5'']"
    and "d \<noteq> []" and "list_all is_hex d" and "at_end t"
  shows "CHECKSUM_RE_match (a @ '':'' @ d @ t) = Some (a, d)"
proof -
  have "drop (length a + 1) (a @ '':'' @ d @ t) = d @ t" by simp
  with assms find_algorithm [OF assms(1), of "d @ t"] span_hex [OF assms(3,4)]
  show ?thesis
    unfolding CHECKSUM_RE_match_def by (simp add: Let_def)
qed

lemma CHECKSUM_RE_match_only:
  assumes "CHECKSUM_RE_match s = Some (a, d)"
  shows "a \<in> set [''sha256'', ''sha512'', ''sha1'', ''md5''] \<and> d \<noteq> [] \<and> list_all is_hex d
         \<and> (\<exists>t. at_end t \<and> s = a @ '':'' @ d @ t)"
proof -
  from assms obtain a' where f:
    "List.find (\<lambda>x. prefix (x @ '':'') s) [''sha256'', ''sha512'', ''sha1'', ''md5''] = Some a'"
    unfolding CHECKSUM_RE_match_def by (auto split: option.splits)
  from find_algorithmD [OF f] obtain r where a': "a' \<in> set [''sha256'', ''sha512'', ''sha1'', ''md5'']"
    and s: "s = a' @ '':'' @ r" by blast
  have dr: "drop (length a' + 1) s = r" using s by simp
  from assms f dr have eq: "a = a'" "d = takeWhile is_hex r" "d \<noteq> []" "at_end (dropWhile is_hex r)"
    unfolding CHECKSUM_RE_match_def by (auto simp: Let_def split: if_splits)
  have "list_all is_hex d" unfolding eq(2) list_all_iff by (auto dest: set_takeWhileD)
  moreover have "r = d @ dropWhile is_hex r" unfolding eq(2) by simp
  ultimately show ?thesis using a' s eq by auto
qed

text \<open>
  Claim C8, amended. For every checksum string \<open><algorithm>:<digest>\<close> where the algorithm
  is one of sha256, sha512, sha1, md5 and the digest is a non-empty run of lowercase
  hexadecimal characters, \<open>parse_checksum\<close> accepts the string and returns the pair
  \<open>(algorithm, digest)\<close>, whatever the length of the digest: the length is not compared with
  the output length of the algorithm.
\<close>

theorem parse_checksum_any_length:
  assumes "a \<in> set [''sha256'', ''sha512'', ''sha1'', ''md5'']"
    and "d \<noteq> []" and "list_all is_hex d"
  shows "parse_checksum (a @ '':'' @ d) = Inr (a, d)"
proof -
  have "at_end []" by (simp add: at_end_def)
  with assms have "CHECKSUM_RE_match (a @ '':'' @ d @ []) = Some (a, d)"
    by (rule CHECKSUM_RE_match_accepts)
  then show ?thesis by (simp add: parse_checksum_def)
qed

theorem parse_checksum_any_length_witness:
  "parse_checksum ''sha1:abc'' = Inr (''sha1'', ''abc'')"
  using parse_checksum_any_length [of "''sha1''" "''abc''"]
  by (simp add: is_hex_def)

text \<open>
  Claim C8 as stated fails on its own example: \<open>sha256:\<close> followed by ten hexadecimal
  characters is accepted.
\<close>

theorem parse_checksum_counterexample:
  "length ''abcdef0123'' \<noteq> 64
   \<and> parse_checksum ''sha256:abcdef0123'' = Inr (''sha256'', ''abcdef0123'')"
  by (simp add: parse_checksum_def CHECKSUM_RE_match_def is_hex_def at_end_def)

section \<open>Properties of locations\<close>

lemma https_not_http: "prefix ''https://'' u \<Longrightarrow> \<not> prefix ''http://'' u"
  by (auto simp: prefix_def)

lemma https_not_oci: "prefix ''https://'' u \<Longrightarrow> \<not> prefix ''oci://'' u"
  by (auto simp: prefix_def)

lemma http_not_oci: "prefix ''http://'' u \<Longrightarrow> \<not> prefix ''oci://'' u"
  by (auto simp: prefix_def)

lemma is_oci_iff: "is_oci L \<longleftrightarrow> (\<exists>u. loc_url L = Some u \<and> prefix ''oci://'' u)"
  by (auto simp: is_oci_def no_url_def url_startswith_def split: option.splits)

lemma validate_ok_iff:
  "Location_validate L = Inr () \<longleftrightarrow>
     loc_validate_checksum L = Inr () \<and> loc_validate_contents L = Inr ()
     \<and> loc_validate_local_path L = Inr () \<and> loc_validate_size L = Inr ()
     \<and> loc_validate_url L = Inr ()"
  by (auto simp: Location_validate_def and_then_def split: sum.splits)

lemma validate_fails_iff:
  "(\<exists>e. Location_validate L = Inl e) \<longleftrightarrow> Location_validate L \<noteq> Inr ()"
  by (cases "Location_validate L") auto

lemma oci_example_match:
  "OCI_REFERENCE_RE_match (''oci://quay.io/fedora/rpms:bash@sha256:'' @ replicate 64 CHR ''a'')
   = Some \<lparr>group_registry = ''quay.io'', group_repository = ''fedora/rpms'',
            group_tag = Some ''bash'', group_digest = ''sha256:'' @ replicate 64 CHR ''a''\<rparr>"
  by code_simp

text \<open>
  What \<open>validate\<close> does reject: an absolute url, an absolute local path, an OCI url with no
  \<open>@sha256:\<close> anywhere in it, a negative size, and contents with a url that is no OCI url.
\<close>

lemma validate_rejects:
  assumes "(case loc_url L of None \<Rightarrow> False | Some u \<Rightarrow> prefix ''/'' u)
      \<or> (case loc_local_path L of None \<Rightarrow> False | Some p \<Rightarrow> prefix ''/'' p)
      \<or> (case loc_url L of None \<Rightarrow> False
          | Some u \<Rightarrow> prefix ''oci://'' u \<and> \<not> str_contains ''@sha256:'' u)
      \<or> (case loc_size L of None \<Rightarrow> False | Some n \<Rightarrow> n < 0)
      \<or> (loc_contents L \<noteq> [] \<and> \<not> is_oci L)"
  shows "\<exists>e. Location_validate L = Inl e"
proof -
  from assms consider
      (url) u where "loc_url L = Some u" "prefix ''/'' u"
    | (path) p where "loc_local_path L = Some p" "prefix ''/'' p"
    | (digest) u where "loc_url L = Some u" "prefix ''oci://'' u" "\<not> str_contains ''@sha256:'' u"
    | (size) n where "loc_size L = Some n" "n < 0"
    | (contents) "loc_contents L \<noteq> []" "\<not> is_oci L"
    by (auto split: option.splits)
  then have "Location_validate L \<noteq> Inr ()"
  proof cases
    case url
    then have "loc_validate_url L \<noteq> Inr ()"
      by (simp add: loc_validate_url_def and_then_def assert_type_def assert_not_blank_def)
    then show ?thesis by (simp add: validate_ok_iff)
  next
    case path
    then have "loc_validate_local_path L \<noteq> Inr ()"
      by (simp add: loc_validate_local_path_def and_then_def assert_type_def assert_not_blank_def)
    then show ?thesis by (simp add: validate_ok_iff)
  next
    case digest
    then have "is_oci L" by (simp add: is_oci_iff)
    with digest have "loc_validate_url L \<noteq> Inr ()"
      by (simp add: loc_validate_url_def and_then_def assert_type_def assert_not_blank_def)
    then show ?thesis by (simp add: validate_ok_iff)
  next
    case size
    then have "loc_validate_size L \<noteq> Inr ()"
      by (simp add: loc_validate_size_def and_then_def assert_type_def)
    then show ?thesis by (simp add: validate_ok_iff)
  next
    case contents
    then have "loc_validate_contents L \<noteq> Inr ()"
      by (simp add: loc_validate_contents_def)
    then show ?thesis by (simp add: validate_ok_iff)
  qed
  then show ?thesis by (simp add: validate_fails_iff)
qed

text \<open>
  The digest component in other words: the url is some text, then \<open>@sha256:\<close>, then 64
  hexadecimal characters.
\<close>

lemma spec_has_digest_iff:
  "spec_has_digest u \<longleftrightarrow>
     (\<exists>p h. u = p @ ''@sha256:'' @ h \<and> length h = 64 \<and> list_all is_hex h)"
proof
  assume d: "spec_has_digest u"
  let ?p = "take (length u - 72) u"
  let ?h = "drop (length u - 64) u"
  from d have len: "72 \<le> length u" and at: "take 8 (drop (length u - 72) u) = ''@sha256:''"
    and hex: "list_all is_hex ?h"
    by (simp_all add: spec_has_digest_def)
  have "drop 8 (drop (length u - 72) u) = ?h"
    using len by simp
  then have "drop (length u - 72) u = ''@sha256:'' @ ?h"
    using at by (metis append_take_drop_id)
  then have "u = ?p @ ''@sha256:'' @ ?h"
    by (metis append_take_drop_id)
  moreover have "length ?h = 64" using len by simp
  ultimately show "\<exists>p h. u = p @ ''@sha256:'' @ h \<and> length h = 64 \<and> list_all is_hex h"
    using hex by blast
next
  assume "\<exists>p h. u = p @ ''@sha256:'' @ h \<and> length h = 64 \<and> list_all is_hex h"
  then obtain p h where u: "u = p @ ''@sha256:'' @ h" and h: "length h = 64" "list_all is_hex h"
    by blast
  from u h show "spec_has_digest u"
    by (simp add: spec_has_digest_def)
qed

text \<open>
  The example of the specification: the url \<open>oci://quay.io/fedora/rpms:bash@sha256:\<close>
  followed by 64 characters \<open>a\<close> is an OCI url with registry \<open>quay.io\<close>, repository
  \<open>fedora/rpms\<close>, tag \<open>bash\<close> and that digest.
\<close>

lemma oci_example_classification:
  assumes "loc_url L = Some (''oci://quay.io/fedora/rpms:bash@sha256:'' @ replicate 64 CHR ''a'')"
  shows "is_oci L \<and> oci_registry L = Some ''quay.io'' \<and> oci_repository L = Some ''fedora/rpms''
      \<and> oci_tag L = Some ''bash'' \<and> oci_digest L = Some (''sha256:'' @ replicate 64 CHR ''a'')"
proof -
  from assms have oci: "is_oci L" by (simp add: is_oci_iff)
  with assms have "oci_match L =
      Some \<lparr>group_registry = ''quay.io'', group_repository = ''fedora/rpms'',
            group_tag = Some ''bash'', group_digest = ''sha256:'' @ replicate 64 CHR ''a''\<rparr>"
    by (simp only: oci_match_def oci_example_match if_True not_True_eq_False if_False
        option.case)
  with oci show ?thesis
    by (simp add: oci_registry_def oci_repository_def oci_tag_def oci_digest_def)
qed

text \<open>
  Claim C9. For every Location the scheme classifications are mutually exclusive and
  exhaustive: at most one of \<open>is_https\<close>, \<open>is_http\<close>, \<open>is_oci\<close> is true; \<open>is_remote\<close> is true
  exactly when one of the three is; \<open>is_local\<close> is true exactly when none is, and a url
  that is \<open>None\<close> or the empty string classifies as local.
\<close>

theorem scheme_classification:
  "\<not> (is_https L \<and> is_http L) \<and> \<not> (is_https L \<and> is_oci L) \<and> \<not> (is_http L \<and> is_oci L)
   \<and> is_remote L = (is_https L \<or> is_http L \<or> is_oci L)
   \<and> is_local L = (\<not> is_https L \<and> \<not> is_http L \<and> \<not> is_oci L)
   \<and> (loc_url L = None \<or> loc_url L = Some [] \<longrightarrow> is_local L)"
proof -
  have excl: "\<not> (is_https L \<and> is_http L)" "\<not> (is_https L \<and> is_oci L)"
    "\<not> (is_http L \<and> is_oci L)"
    by (auto simp: is_https_def is_http_def is_oci_def url_startswith_def
        dest: https_not_http https_not_oci http_not_oci split: option.splits if_splits)
  have rem: "is_remote L = (is_https L \<or> is_http L \<or> is_oci L)"
    by (simp add: is_remote_def is_https_def is_http_def is_oci_def)
  have loc: "loc_url L = None \<or> loc_url L = Some [] \<longrightarrow> is_local L"
    by (simp add: is_local_def is_remote_def no_url_def)
  from excl rem loc show ?thesis by (simp add: is_local_def)
qed

theorem scheme_classification_witness:
  "is_https (Location_init (Some ''https://cdn.example.com/f.rpm'') None None None None)
   \<and> \<not> is_http (Location_init (Some ''https://cdn.example.com/f.rpm'') None None None None)
   \<and> \<not> is_oci (Location_init (Some ''https://cdn.example.com/f.rpm'') None None None None)
   \<and> is_remote (Location_init (Some ''https://cdn.example.com/f.rpm'') None None None None)
   \<and> \<not> is_local (Location_init (Some ''https://cdn.example.com/f.rpm'') None None None None)
   \<and> is_local (Location_init None None None None None)
   \<and> is_local (Location_init (Some []) None None None None)"
proof -
  have "is_https (Location_init (Some ''https://cdn.example.com/f.rpm'') None None None None)"
    by (simp add: is_https_def no_url_def url_startswith_def Location_init_def)
  moreover have "loc_url (Location_init None None None None None) = None"
    "loc_url (Location_init (Some []) None None None None) = Some []"
    by (simp_all add: Location_init_def)
  ultimately show ?thesis
    using scheme_classification [of "Location_init (Some ''https://cdn.example.com/f.rpm'') None None None None"]
      scheme_classification [of "Location_init None None None None None"]
      scheme_classification [of "Location_init (Some []) None None None None"]
    by blast
qed

text \<open>
  Claim C10. For every pair of Locations, \<open>L1 == L2\<close> implies \<open>hash(L1) == hash(L2)\<close>:
  equality is over all five attributes, the hash over the first four only. Two Locations
  that differ only in their contents compare unequal and have the same hash.
\<close>

theorem hash_consistent_with_eq:
  "(Location_eq L1 L2 \<longrightarrow> Location_hash py_hash L1 = Location_hash py_hash L2)
   \<and> (\<not> list_all2 FileEntry_eq (loc_contents L1) entries \<longrightarrow>
        \<not> Location_eq L1 (L1\<lparr>loc_contents := entries\<rparr>)
        \<and> Location_hash py_hash L1 = Location_hash py_hash (L1\<lparr>loc_contents := entries\<rparr>))"
  by (simp add: Location_eq_def Location_hash_def)

theorem hash_consistent_with_eq_witness:
  "Location_eq (Location_init (Some ''a'') (Some 1) None None None)
               (Location_init (Some ''a'') (Some 1) None None (Some []))
   \<and> Location_hash (\<lambda>_. 7) (Location_init (Some ''a'') (Some 1) None None None)
       = Location_hash (\<lambda>_. 7) (Location_init (Some ''a'') (Some 1) None None (Some []))
   \<and> \<not> Location_eq (Location_init (Some ''a'') (Some 1) None None None)
         ((Location_init (Some ''a'') (Some 1) None None None)
            \<lparr>loc_contents := [FileEntry_init None None None None]\<rparr>)"
proof -
  have e: "Location_eq (Location_init (Some ''a'') (Some 1) None None None)
               (Location_init (Some ''a'') (Some 1) None None (Some []))"
    by (simp add: Location_eq_def Location_init_def)
  have n: "\<not> list_all2 FileEntry_eq (loc_contents (Location_init (Some ''a'') (Some 1) None None None))
        [FileEntry_init None None None None]"
    by (simp add: Location_init_def)
  from e n show ?thesis
    using hash_consistent_with_eq [of "Location_init (Some ''a'') (Some 1) None None None"
        "Location_init (Some ''a'') (Some 1) None None (Some [])" "\<lambda>_. 7"
        "[FileEntry_init None None None None]"]
    by blast
qed

text \<open>
  Claim C7. For every Location \<open>L\<close> (an object whose contents list exists in the store) and
  every string \<open>base_url\<close>, \<open>L.with_remote_url(base_url)\<close> returns a new Location whose url
  is \<open>base_url\<close> without its trailing slashes, then \<open>/\<close>, then the local path of \<open>L\<close>
  (printed as \<open>None\<close> when it is \<open>None\<close>); its size, checksum and local path are those of
  \<open>L\<close>; its contents are a list equal to that of \<open>L\<close>, held in a list object that did not
  exist before the call, so it is shared with neither \<open>L\<close> nor anything else; no list that
  existed changes, and \<open>L\<close> has the value it had.
\<close>

theorem with_remote_url_frame:
  assumes "loc_contents L < fresh st"
    and "with_remote_url st L base_url = (L', st')"
  shows "loc_url L' = Some (rstrip CHR ''/'' base_url @ ''/'' @ format_str (loc_local_path L))
       \<and> loc_size L' = loc_size L \<and> loc_checksum L' = loc_checksum L
       \<and> loc_local_path L' = loc_local_path L
       \<and> cells st' (loc_contents L') = cells st (loc_contents L)
       \<and> fresh st \<le> loc_contents L' \<and> loc_contents L' < fresh st'
       \<and> loc_contents L' \<noteq> loc_contents L
       \<and> (\<forall>r < fresh st. cells st' r = cells st r)
       \<and> Location_value st' L = Location_value st L"
  using assms
  by (auto simp: with_remote_url_def Location_new_def alloc_def Let_def Location_value_def
      split: if_splits prod.splits)

theorem with_remote_url_frame_witness:
  "loc_url (fst (with_remote_url
      \<lparr>cells = (\<lambda>_. [])(0 := [FileEntry_init (Some ''vmlinuz'') (Some 1) None None]), fresh = 1\<rparr>
      \<lparr>loc_url = Some ''Server/x86_64/os/Packages/b/bash.rpm'', loc_size = Some 1000,
        loc_checksum = Some ''sha256:ab'',
        loc_local_path = Some ''Server/x86_64/os/Packages/b/bash.rpm'', loc_contents = 0\<rparr>
      ''https://cdn.example.com/compose/''))
     = Some ''https://cdn.example.com/compose/Server/x86_64/os/Packages/b/bash.rpm''
   \<and> loc_contents (fst (with_remote_url
      \<lparr>cells = (\<lambda>_. [])(0 := [FileEntry_init (Some ''vmlinuz'') (Some 1) None None]), fresh = 1\<rparr>
      \<lparr>loc_url = Some ''Server/x86_64/os/Packages/b/bash.rpm'', loc_size = Some 1000,
        loc_checksum = Some ''sha256:ab'',
        loc_local_path = Some ''Server/x86_64/os/Packages/b/bash.rpm'', loc_contents = 0\<rparr>
      ''https://cdn.example.com/compose/'')) \<noteq> 0
   \<and> cells (snd (with_remote_url
      \<lparr>cells = (\<lambda>_. [])(0 := [FileEntry_init (Some ''vmlinuz'') (Some 1) None None]), fresh = 1\<rparr>
      \<lparr>loc_url = Some ''Server/x86_64/os/Packages/b/bash.rpm'', loc_size = Some 1000,
        loc_checksum = Some ''sha256:ab'',
        loc_local_path = Some ''Server/x86_64/os/Packages/b/bash.rpm'', loc_contents = 0\<rparr>
      ''https://cdn.example.com/compose/'')) 0
     = [FileEntry_init (Some ''vmlinuz'') (Some 1) None None]"
  using with_remote_url_frame [of
      "\<lparr>loc_url = Some ''Server/x86_64/os/Packages/b/bash.rpm'', loc_size = Some 1000,
        loc_checksum = Some ''sha256:ab'',
        loc_local_path = Some ''Server/x86_64/os/Packages/b/bash.rpm'', loc_contents = 0\<rparr>"
      "\<lparr>cells = (\<lambda>_. [])(0 := [FileEntry_init (Some ''vmlinuz'') (Some 1) None None]), fresh = 1\<rparr>"
      "''https://cdn.example.com/compose/''"
      "fst (with_remote_url
      \<lparr>cells = (\<lambda>_. [])(0 := [FileEntry_init (Some ''vmlinuz'') (Some 1) None None]), fresh = 1\<rparr>
      \<lparr>loc_url = Some ''Server/x86_64/os/Packages/b/bash.rpm'', loc_size = Some 1000,
        loc_checksum = Some ''sha256:ab'',
        loc_local_path = Some ''Server/x86_64/os/Packages/b/bash.rpm'', loc_contents = 0\<rparr>
      ''https://cdn.example.com/compose/'')"
      "snd (with_remote_url
      \<lparr>cells = (\<lambda>_. [])(0 := [FileEntry_init (Some ''vmlinuz'') (Some 1) None None]), fresh = 1\<rparr>
      \<lparr>loc_url = Some ''Server/x86_64/os/Packages/b/bash.rpm'', loc_size = Some 1000,
        loc_checksum = Some ''sha256:ab'',
        loc_local_path = Some ''Server/x86_64/os/Packages/b/bash.rpm'', loc_contents = 0\<rparr>
      ''https://cdn.example.com/compose/'')"]
  by (simp add: rstrip_def format_str_def)

text \<open>
  Claim C4 requires \<open>validate\<close> to fail on every Location whose OCI url misses its digest.
  The code does not: the Location with url \<open>oci://r/x@sha256:\<close>, size 1000, checksum
  \<open>sha256:ab\<close> and local path \<open>x\<close> has an OCI url with no digest at all (the pattern for OCI
  references does not match it and \<open>oci_digest\<close> is \<open>None\<close>), and \<open>validate\<close> accepts it:
  \<open>_validate_url\<close> only looks for the text \<open>@sha256:\<close> in the url.
\<close>

theorem oci_empty_digest_accepted:
  "spec_invariant_violation
     (Location_init (Some ''oci://r/x@sha256:'') (Some 1000) (Some ''sha256:ab'') (Some ''x'') None)
   \<and> oci_digest
     (Location_init (Some ''oci://r/x@sha256:'') (Some 1000) (Some ''sha256:ab'') (Some ''x'') None)
     = None
   \<and> Location_validate
     (Location_init (Some ''oci://r/x@sha256:'') (Some 1000) (Some ''sha256:ab'') (Some ''x'') None)
     = Inr ()"
  by code_simp

text \<open>
  Claim C3 requires \<open>validate\<close> to fail on every Location whose url starts with \<open>oci://\<close> and
  lacks the \<open>@sha256:<64-hex>\<close> digest component. The code does not: the url
  \<open>oci://quay.io/fedora/rpms:bash@sha256:abc\<close> starts with \<open>oci://\<close> and lacks the component
  (three hexadecimal characters follow \<open>@sha256:\<close>; the pattern for OCI references does not
  match and \<open>oci_digest\<close> is \<open>None\<close>), and \<open>validate\<close> accepts the Location.
\<close>

theorem oci_short_digest_accepted:
  "prefix ''oci://'' ''oci://quay.io/fedora/rpms:bash@sha256:abc''
   \<and> \<not> spec_has_digest ''oci://quay.io/fedora/rpms:bash@sha256:abc''
   \<and> OCI_REFERENCE_RE_match ''oci://quay.io/fedora/rpms:bash@sha256:abc'' = None
   \<and> oci_digest (Location_init (Some ''oci://quay.io/fedora/rpms:bash@sha256:abc'') (Some 1000)
        (Some ''sha256:ab'') (Some ''path/to/file.rpm'') None) = None
   \<and> Location_validate (Location_init (Some ''oci://quay.io/fedora/rpms:bash@sha256:abc'')
        (Some 1000) (Some ''sha256:ab'') (Some ''path/to/file.rpm'') None) = Inr ()"
  by code_simp

section \<open>Serialization round trip\<close>

lemma assert_type_then:
  "and_then (assert_type x) f = Inr y \<Longrightarrow> x \<noteq> None"
  by (cases x) (simp_all add: and_then_def assert_type_def)

lemma entry_valid_fields:
  assumes "FileEntry_validate e = Inr ()"
  shows "\<exists>f n c l. e = \<lparr>entry_file = Some f, entry_size = Some n, entry_checksum = Some c,
                          entry_layer_digest = Some l\<rparr>"
proof -
  from assms have "entry_validate_checksum e = Inr ()" "entry_validate_file e = Inr ()"
    "entry_validate_layer_digest e = Inr ()" "entry_validate_size e = Inr ()"
    by (auto simp: FileEntry_validate_def and_then_def split: sum.splits)
  then have "entry_checksum e \<noteq> None" "entry_file e \<noteq> None" "entry_layer_digest e \<noteq> None"
    "entry_size e \<noteq> None"
    unfolding entry_validate_checksum_def entry_validate_file_def
      entry_validate_layer_digest_def entry_validate_size_def
    by (blast dest: assert_type_then)+
  then show ?thesis by (cases e) auto
qed

lemma entry_roundtrip:
  assumes "FileEntry_validate e = Inr ()"
  shows "\<exists>d. FileEntry_serialize e = Inr d \<and> FileEntry_from_dict d = Inr e"
proof -
  from entry_valid_fields [OF assms] obtain f n c l where
    e: "e = \<lparr>entry_file = Some f, entry_size = Some n, entry_checksum = Some c,
             entry_layer_digest = Some l\<rparr>"
    by blast
  have ser: "FileEntry_serialize e =
      Inr (JDict [(''file'', JStr f), (''size'', JInt n), (''checksum'', JStr c),
                  (''layer_digest'', JStr l)])"
    using assms by (simp add: FileEntry_serialize_def and_then_def e json_of_str_def json_of_int_def)
  have "FileEntry_from_dict (JDict [(''file'', JStr f), (''size'', JInt n), (''checksum'', JStr c),
                  (''layer_digest'', JStr l)]) = Inr e"
    using assms unfolding e
    by (simp add: FileEntry_from_dict_def and_then_def py_int_def str_field_def Let_def)
  with ser show ?thesis by simp
qed

lemma each_roundtrip:
  "validate_each es = Inr () \<Longrightarrow>
   \<exists>ds. serialize_each es = Inr ds \<and> from_dict_each ds = Inr es"
proof (induction es)
  case Nil
  then show ?case by simp
next
  case (Cons e es)
  from Cons.prems have v: "FileEntry_validate e = Inr ()" and vs: "validate_each es = Inr ()"
    by (auto simp: and_then_def split: sum.splits)
  from entry_roundtrip [OF v] obtain d where d: "FileEntry_serialize e = Inr d"
    "FileEntry_from_dict d = Inr e" by blast
  from Cons.IH [OF vs] obtain ds where ds: "serialize_each es = Inr ds"
    "from_dict_each ds = Inr es" by blast
  from d ds show ?case by (simp add: and_then_def)
qed

lemma location_valid_fields:
  assumes "Location_validate L = Inr ()"
  shows "\<exists>u n c p es. L = \<lparr>loc_url = Some u, loc_size = Some n, loc_checksum = Some c,
                            loc_local_path = Some p, loc_contents = es\<rparr>"
proof -
  from assms have "loc_validate_checksum L = Inr ()" "loc_validate_local_path L = Inr ()"
    "loc_validate_size L = Inr ()" "loc_validate_url L = Inr ()"
    by (auto simp: Location_validate_def and_then_def split: sum.splits)
  then have "loc_checksum L \<noteq> None" "loc_local_path L \<noteq> None" "loc_size L \<noteq> None"
    "loc_url L \<noteq> None"
    unfolding loc_validate_checksum_def loc_validate_local_path_def
      loc_validate_size_def loc_validate_url_def
    by (blast dest: assert_type_then)+
  then show ?thesis by (cases L) auto
qed

lemma Location_eq_refl: "Location_eq L L"
  by (simp add: Location_eq_def FileEntry_eq_def list_all2_same)

text \<open>
  Claim C5. For every Location \<open>L\<close> that passes \<open>validate\<close>, \<open>L.serialize()\<close> returns a
  dictionary and \<open>Location.from_dict\<close> of that dictionary returns a Location equal to
  \<open>L\<close>, whether the contents are empty or hold entries; equality of the contents is
  equality of the entries, one by one.
\<close>

theorem location_roundtrip:
  assumes "Location_validate L = Inr ()"
  shows "\<exists>d L'. Location_serialize L = Inr d \<and> Location_from_dict d = Inr L' \<and> Location_eq L' L"
proof -
  from location_valid_fields [OF assms] obtain u n c p es where
    L: "L = \<lparr>loc_url = Some u, loc_size = Some n, loc_checksum = Some c,
             loc_local_path = Some p, loc_contents = es\<rparr>"
    by blast
  from assms have "loc_validate_contents L = Inr ()"
    by (auto simp: Location_validate_def and_then_def split: sum.splits)
  then have "validate_each es = Inr ()"
    by (simp add: loc_validate_contents_def L split: if_splits)
  from each_roundtrip [OF this] obtain ds where ds: "serialize_each es = Inr ds"
    "from_dict_each ds = Inr es" by blast
  show ?thesis
  proof (cases "es = []")
    case True
    have ser: "Location_serialize L =
        Inr (JDict [(''url'', JStr u), (''size'', JInt n), (''checksum'', JStr c),
                    (''local_path'', JStr p)])"
      using assms True
      by (simp add: Location_serialize_def and_then_def L json_of_str_def json_of_int_def)
    have "Location_from_dict (JDict [(''url'', JStr u), (''size'', JInt n), (''checksum'', JStr c),
                    (''local_path'', JStr p)]) = Inr L"
      using assms True unfolding L
      by (simp add: Location_from_dict_def and_then_def py_int_def str_field_def ill_typed_def
          Let_def)
    with ser Location_eq_refl show ?thesis by blast
  next
    case False
    have ser: "Location_serialize L =
        Inr (JDict [(''url'', JStr u), (''size'', JInt n), (''checksum'', JStr c),
                    (''local_path'', JStr p), (''contents'', JList ds)])"
      using assms False ds
      by (simp add: Location_serialize_def and_then_def L json_of_str_def json_of_int_def)
    have "Location_from_dict (JDict [(''url'', JStr u), (''size'', JInt n), (''checksum'', JStr c),
                    (''local_path'', JStr p), (''contents'', JList ds)]) = Inr L"
      using assms ds unfolding L
      by (simp add: Location_from_dict_def and_then_def py_int_def str_field_def py_iter_def
          ill_typed_def Let_def)
    with ser Location_eq_refl show ?thesis by blast
  qed
qed

theorem location_roundtrip_witness:
  "Location_validate
     (Location_init (Some (''oci://quay.io/fedora/boot-files:test@sha256:'' @ replicate 64 CHR ''a''))
        (Some 101376000) (Some (''sha256:'' @ replicate 64 CHR ''a''))
        (Some ''Server/x86_64/os/images'')
        (Some [FileEntry_init (Some ''pxeboot/vmlinuz'') (Some 11534336)
                 (Some (''sha256:'' @ replicate 64 CHR ''b''))
                 (Some (''sha256:'' @ replicate 64 CHR ''b''))])) = Inr ()
   \<and> (\<exists>d L'. Location_serialize
     (Location_init (Some (''oci://quay.io/fedora/boot-files:test@sha256:'' @ replicate 64 CHR ''a''))
        (Some 101376000) (Some (''sha256:'' @ replicate 64 CHR ''a''))
        (Some ''Server/x86_64/os/images'')
        (Some [FileEntry_init (Some ''pxeboot/vmlinuz'') (Some 11534336)
                 (Some (''sha256:'' @ replicate 64 CHR ''b''))
                 (Some (''sha256:'' @ replicate 64 CHR ''b''))])) = Inr d
       \<and> Location_from_dict d = Inr L'
       \<and> Location_eq L'
     (Location_init (Some (''oci://quay.io/fedora/boot-files:test@sha256:'' @ replicate 64 CHR ''a''))
        (Some 101376000) (Some (''sha256:'' @ replicate 64 CHR ''a''))
        (Some ''Server/x86_64/os/images'')
        (Some [FileEntry_init (Some ''pxeboot/vmlinuz'') (Some 11534336)
                 (Some (''sha256:'' @ replicate 64 CHR ''b''))
                 (Some (''sha256:'' @ replicate 64 CHR ''b''))])))"
proof -
  have v: "Location_validate
     (Location_init (Some (''oci://quay.io/fedora/boot-files:test@sha256:'' @ replicate 64 CHR ''a''))
        (Some 101376000) (Some (''sha256:'' @ replicate 64 CHR ''a''))
        (Some ''Server/x86_64/os/images'')
        (Some [FileEntry_init (Some ''pxeboot/vmlinuz'') (Some 11534336)
                 (Some (''sha256:'' @ replicate 64 CHR ''b''))
                 (Some (''sha256:'' @ replicate 64 CHR ''b''))])) = Inr ()"
    by code_simp
  from v location_roundtrip [OF v] show ?thesis by blast
qed

end
